theory Spec2Isabelle
  imports Complex_Main "HOL-Library.AList" "HOL-Library.Sublist"
begin

section \<open>Python values, dictionaries and exceptions\<close>

text \<open>
  The module \<^verbatim>\<open>tools.py\<close> raises no exception of its own, but the library calls and the
  subscripts it makes do. Each of them is a value of \<open>error\<close>, and a function that can
  raise returns \<open>error + 'a\<close> with \<open>Inl\<close> for the exception.
\<close>

datatype error =
    KeyError | TypeError | ValueError | IndexError | IOError | OSError
  | UnboundLocalError | UnpicklingError

text \<open>
  A \<^verbatim>\<open>numpy.random.RandomState\<close> is identified by the seed it was built from and the
  number of normal variates drawn from it so far. A freshly seeded generator has drawn none.
\<close>

datatype rng = RandomState (seed_of: int) (drawn: nat)

text \<open>
  The values a hyper-parameter or log dictionary holds. Floating-point numbers are
  idealised as reals. Tuples, nested dictionaries and arrays are outside the model.
\<close>

datatype pyval =
    VNone | VBool bool | VInt int | VFloat real | VStr string
  | VList "pyval list" | VRng rng

text \<open>
  A dictionary with string keys is an association list (insertion order, one entry per key):
  \<open>map_of d k\<close> is the lookup, \<open>AList.update k v d\<close> is \<^verbatim>\<open>d[k] = v\<close>,
  \<open>AList.delete k d\<close> removes the key.
\<close>

type_synonym pydict = "(string \<times> pyval) list"

definition getitem :: "pydict \<Rightarrow> string \<Rightarrow> error + pyval" where
  \<comment> \<open>\<^verbatim>\<open>d[k]\<close>\<close>
  "getitem d k = (case map_of d k of None \<Rightarrow> Inl KeyError | Some v \<Rightarrow> Inr v)"

fun num_val :: "pyval \<Rightarrow> real option" where
  \<comment> \<open>the numeric value of a number; \<^verbatim>\<open>bool\<close> is a subclass of \<^verbatim>\<open>int\<close>\<close>
  "num_val (VBool b) = Some (if b then 1 else 0)"
| "num_val (VInt i) = Some (of_int i)"
| "num_val (VFloat r) = Some r"
| "num_val VNone = None"
| "num_val (VStr s) = None"
| "num_val (VList xs) = None"
| "num_val (VRng r) = None"

text \<open>
  Python's \<^verbatim>\<open>==\<close>: numbers compare by value across \<^verbatim>\<open>bool\<close>, \<^verbatim>\<open>int\<close> and
  \<^verbatim>\<open>float\<close>, strings and \<^verbatim>\<open>None\<close> compare with their own kind, lists compare
  element by element. A generator compares by object identity; every comparison this module
  makes has a freshly loaded value or a string literal on one side, so a generator operand
  never compares equal.
\<close>

fun py_eq :: "pyval \<Rightarrow> pyval \<Rightarrow> bool"
  and py_eq_list :: "pyval list \<Rightarrow> pyval list \<Rightarrow> bool" where
  "py_eq VNone VNone = True"
| "py_eq (VStr s) (VStr t) = (s = t)"
| "py_eq (VList xs) (VList ys) = py_eq_list xs ys"
| "py_eq a b = (case (num_val a, num_val b) of (Some x, Some y) \<Rightarrow> x = y | _ \<Rightarrow> False)"
| "py_eq_list [] [] = True"
| "py_eq_list (x # xs) (y # ys) = (py_eq x y \<and> py_eq_list xs ys)"
| "py_eq_list [] (y # ys) = False"
| "py_eq_list (x # xs) [] = False"

fun py_add_int :: "pyval \<Rightarrow> int \<Rightarrow> error + pyval" where
  \<comment> \<open>\<^verbatim>\<open>v + n\<close> for an integer literal \<open>n\<close>\<close>
  "py_add_int (VInt i) n = Inr (VInt (i + n))"
| "py_add_int (VBool b) n = Inr (VInt ((if b then 1 else 0) + n))"
| "py_add_int (VFloat r) n = Inr (VFloat (r + of_int n))"
| "py_add_int VNone n = Inl TypeError"
| "py_add_int (VStr s) n = Inl TypeError"
| "py_add_int (VList xs) n = Inl TypeError"
| "py_add_int (VRng r) n = Inl TypeError"

fun new_RandomState :: "pyval \<Rightarrow> error + rng" where
  \<comment> \<open>\<^verbatim>\<open>np.random.RandomState(seed)\<close>: the seed is an integer in \<open>[0, 2^32)\<close>\<close>
  "new_RandomState (VInt i) =
     (if 0 \<le> i \<and> i < 2 ^ 32 then Inr (RandomState i 0) else Inl ValueError)"
| "new_RandomState (VBool b) = Inr (RandomState (if b then 1 else 0) 0)"
| "new_RandomState v = Inl TypeError"

section \<open>The file system\<close>

text \<open>
  A directory tree. A path is the list of its components below the root of the tree, so
  \<^verbatim>\<open>os.path.join(d, name)\<close> appends one component. A file holds a JSON document (a
  dictionary, as \<^verbatim>\<open>json.dump\<close> writes it), a pickled dictionary, or anything else
  (a checkpoint, a truncated document).
\<close>

datatype content = JsonText pydict | PickleData pydict | OtherData

datatype fsnode = File content | Dir "(string \<times> fsnode) list"

type_synonym path = "string list"

definition path_join :: "path \<Rightarrow> string \<Rightarrow> path" where
  "path_join d name = d @ [name]"

fun fs_lookup :: "fsnode \<Rightarrow> path \<Rightarrow> fsnode option" where
  "fs_lookup n [] = Some n"
| "fs_lookup (File c) (x # xs) = None"
| "fs_lookup (Dir es) (x # xs) =
     (case map_of es x of None \<Rightarrow> None | Some m \<Rightarrow> fs_lookup m xs)"

definition isfile :: "fsnode \<Rightarrow> path \<Rightarrow> bool" where
  \<comment> \<open>\<^verbatim>\<open>os.path.isfile\<close>\<close>
  "isfile fs p = (case fs_lookup fs p of Some (File c) \<Rightarrow> True | _ \<Rightarrow> False)"

definition listdir :: "fsnode \<Rightarrow> path \<Rightarrow> error + string list" where
  \<comment> \<open>\<^verbatim>\<open>os.listdir\<close>\<close>
  "listdir fs p = (case fs_lookup fs p of Some (Dir es) \<Rightarrow> Inr (map fst es) | _ \<Rightarrow> Inl OSError)"

fun walk_node :: "path \<Rightarrow> fsnode \<Rightarrow> path list" where
  \<comment> \<open>the directory paths \<^verbatim>\<open>os.walk\<close> yields, top-down, below a node reached by \<open>p\<close>\<close>
  "walk_node p (File c) = []"
| "walk_node p (Dir es) = p # concat (map (\<lambda>(name, m). walk_node (path_join p name) m) es)"

definition os_walk :: "fsnode \<Rightarrow> path \<Rightarrow> path list" where
  \<comment> \<open>\<^verbatim>\<open>[x[0] for x in os.walk(d)]\<close>; a path that is no directory yields nothing\<close>
  "os_walk fs d = (case fs_lookup fs d of None \<Rightarrow> [] | Some n \<Rightarrow> walk_node d n)"

section \<open>Loading logs and hyper-parameters\<close>

definition load_log :: "fsnode \<Rightarrow> path \<Rightarrow> error + pydict option" where
  "load_log fs train_dir =
     (let fname = path_join train_dir ''log.pkl'' in
      if \<not> isfile fs fname then Inr None
      else (case fs_lookup fs fname of
              Some (File (PickleData lg)) \<Rightarrow> Inr (Some lg)
            | _ \<Rightarrow> Inl UnpicklingError))"

definition load_hparams :: "fsnode \<Rightarrow> path \<Rightarrow> error + pydict option" where
  "load_hparams fs save_dir =
     (let fname = path_join save_dir ''hparams.json'' in
      if \<not> isfile fs fname then Inr None
      else (case fs_lookup fs fname of
              Some (File (JsonText hparams)) \<Rightarrow>
                (case getitem hparams ''seed'' of
                   Inl e \<Rightarrow> Inl e
                 | Inr s \<Rightarrow>
                     (case py_add_int s 1000 of
                        Inl e \<Rightarrow> Inl e
                      | Inr s' \<Rightarrow>
                          (case new_RandomState s' of
                             Inl e \<Rightarrow> Inl e
                           | Inr r \<Rightarrow> Inr (Some (AList.update ''rng'' (VRng r) hparams)))))
            | _ \<Rightarrow> Inl ValueError))"

section \<open>Saving hyper-parameters\<close>

text \<open>
  \<open>save_hparams\<close> copies the caller's dictionary and pops from the copy, so the caller's
  object and the copy are two objects. The store holds the dictionaries: an address is an
  index into \<open>heap\<close>, and \<^verbatim>\<open>hparams.copy()\<close> allocates the next one. An argument is a
  reference to a live dictionary, that is, an address below \<open>length (heap w)\<close>. The state
  after the call is returned also when the call raises.
\<close>

record world =
  heap :: "pydict list"
  files :: fsnode

fun json_serializable :: "pyval \<Rightarrow> bool" where
  \<comment> \<open>the values \<^verbatim>\<open>json.dump\<close> accepts\<close>
  "json_serializable (VRng r) = False"
| "json_serializable (VList xs) = list_all json_serializable xs"
| "json_serializable VNone = True"
| "json_serializable (VBool b) = True"
| "json_serializable (VInt i) = True"
| "json_serializable (VFloat r) = True"
| "json_serializable (VStr s) = True"

fun fs_write :: "fsnode \<Rightarrow> path \<Rightarrow> content \<Rightarrow> error + fsnode" where
  \<comment> \<open>\<^verbatim>\<open>open(p, 'wb')\<close> and a write: the file is created in an existing directory, or replaced\<close>
  "fs_write (File c0) [] c = Inr (File c)"
| "fs_write (Dir es) [] c = Inl IOError"
| "fs_write (File c0) (x # xs) c = Inl IOError"
| "fs_write (Dir es) (x # xs) c =
     (case map_of es x of
        None \<Rightarrow> if xs = [] then Inr (Dir (es @ [(x, File c)])) else Inl IOError
      | Some m \<Rightarrow>
          (case fs_write m xs c of
             Inl e \<Rightarrow> Inl e
           | Inr m' \<Rightarrow> Inr (Dir (AList.update x m' es))))"

text \<open>
  \<^verbatim>\<open>json.dump\<close> writes to the handle opened with \<^verbatim>\<open>'wb'\<close> (as the interpreter the module
  was written for allows). When a value cannot be serialised it raises \<^verbatim>\<open>TypeError\<close> after
  the file has been created, and what is left in the file is no JSON document.
\<close>

definition save_hparams :: "nat \<Rightarrow> path \<Rightarrow> world \<Rightarrow> (error + unit) \<times> world" where
  "save_hparams hparams save_dir w =
     (let hparams_copy = length (heap w);
          w1 = w\<lparr>heap := heap w @ [heap w ! hparams]\<rparr>
      in case map_of (heap w1 ! hparams_copy) ''rng'' of
           None \<Rightarrow> (Inl KeyError, w1)
         | Some r \<Rightarrow>
             (let w2 = w1\<lparr>heap := (heap w1)[hparams_copy :=
                                     AList.delete ''rng'' (heap w1 ! hparams_copy)]\<rparr>;
                  fname = path_join save_dir ''hparams.json'';
                  ok = list_all (\<lambda>(k, v). json_serializable v) (heap w2 ! hparams_copy)
              in case fs_write (files w2) fname
                        (if ok then JsonText (heap w2 ! hparams_copy) else OtherData) of
                   Inl e \<Rightarrow> (Inl e, w2)
                 | Inr fs' \<Rightarrow> (if ok then Inr () else Inl TypeError, w2\<lparr>files := fs'\<rparr>)))"

section \<open>Finding model directories\<close>

fun str_contains :: "string \<Rightarrow> string \<Rightarrow> bool" where
  \<comment> \<open>\<^verbatim>\<open>pat in s\<close> on strings\<close>
  "str_contains pat [] = (pat = [])"
| "str_contains pat (c # cs) = (prefix pat (c # cs) \<or> str_contains pat cs)"

definition contain_model_file :: "fsnode \<Rightarrow> path \<Rightarrow> error + bool" where
  \<comment> \<open>\<^verbatim>\<open>_contain_model_file\<close>: some name in the directory contains \<^verbatim>\<open>'model.ckpt'\<close>\<close>
  "contain_model_file fs model_dir =
     (case listdir fs model_dir of
        Inl e \<Rightarrow> Inl e
      | Inr names \<Rightarrow> Inr (list_ex (str_contains ''model.ckpt'') names))"

fun filter_err :: "('a \<Rightarrow> error + bool) \<Rightarrow> 'a list \<Rightarrow> error + 'a list" where
  \<comment> \<open>the comprehension \<^verbatim>\<open>[x for x in xs if p(x)]\<close> with a test that can raise\<close>
  "filter_err p [] = Inr []"
| "filter_err p (x # xs) =
     (case p x of
        Inl e \<Rightarrow> Inl e
      | Inr b \<Rightarrow>
          (case filter_err p xs of
             Inl e \<Rightarrow> Inl e
           | Inr ys \<Rightarrow> Inr (if b then x # ys else ys)))"

definition valid_model_dirs :: "fsnode \<Rightarrow> path \<Rightarrow> error + path list" where
  "valid_model_dirs fs model_dir = filter_err (contain_model_file fs) (os_walk fs model_dir)"

fun hp_matches :: "pydict option \<Rightarrow> pydict \<Rightarrow> error + bool" where
  \<comment> \<open>\<^verbatim>\<open>all(hp[key] == val for key, val in hp_target.items())\<close>, which stops at the first
      mismatch; \<open>hp\<close> is \<^verbatim>\<open>None\<close> when the directory has no hyper-parameter file\<close>
  "hp_matches hp [] = Inr True"
| "hp_matches hp ((key, v) # items) =
     (case hp of
        None \<Rightarrow> Inl TypeError
      | Some h \<Rightarrow>
          (case getitem h key of
             Inl e \<Rightarrow> Inl e
           | Inr u \<Rightarrow> if py_eq u v then hp_matches hp items else Inr False))"

fun find_all_models_loop ::
  "fsnode \<Rightarrow> pydict \<Rightarrow> path list \<Rightarrow> path list \<times> pydict option list \<Rightarrow>
   error + path list \<times> pydict option list" where
  "find_all_models_loop fs hp_target [] (model_dirs, hps) = Inr (model_dirs, hps)"
| "find_all_models_loop fs hp_target (d # dirs) (model_dirs, hps) =
     (case load_hparams fs d of
        Inl e \<Rightarrow> Inl e
      | Inr hp \<Rightarrow>
          (case hp_matches hp hp_target of
             Inl e \<Rightarrow> Inl e
           | Inr b \<Rightarrow>
               find_all_models_loop fs hp_target dirs
                 (if b then (model_dirs @ [d], hps @ [hp]) else (model_dirs, hps))))"

definition find_all_models ::
  "fsnode \<Rightarrow> path \<Rightarrow> pydict \<Rightarrow> error + path list \<times> pydict option list" where
  "find_all_models fs root_dir hp_target =
     (case valid_model_dirs fs root_dir of
        Inl e \<Rightarrow> Inl e
      | Inr dirs \<Rightarrow> find_all_models_loop fs hp_target dirs ([], []))"

fun py_last :: "pyval \<Rightarrow> error + pyval" where
  \<comment> \<open>\<^verbatim>\<open>v[-1]\<close>\<close>
  "py_last (VList xs) = (if xs = [] then Inl IndexError else Inr (last xs))"
| "py_last (VStr s) = (if s = [] then Inl IndexError else Inr (VStr [last s]))"
| "py_last VNone = Inl TypeError"
| "py_last (VBool b) = Inl TypeError"
| "py_last (VInt i) = Inl TypeError"
| "py_last (VFloat r) = Inl TypeError"
| "py_last (VRng r) = Inl TypeError"

text \<open>
  \<open>find_model\<close> returns the pair \<^verbatim>\<open>(d, hp)\<close> and prints; the printed lines are returned
  with the pair. The comparison \<^verbatim>\<open>log['perf_min'][-1] < hp['target_perf']\<close> decides only
  whether the warning is printed, unless it raises. On numbers it is the numeric order; on
  other values it depends on the interpreter, so it is the parameter \<open>lt\<close>.
\<close>

definition find_model ::
  "(pyval \<Rightarrow> pyval \<Rightarrow> error + bool) \<Rightarrow> fsnode \<Rightarrow> path \<Rightarrow> pydict \<Rightarrow>
   error + (path option \<times> pydict option) \<times> string list" where
  "find_model lt fs root_dir hp_target =
     (case find_all_models fs root_dir hp_target of
        Inl e \<Rightarrow> Inl e
      | Inr (model_dirs, hps) \<Rightarrow>
          (case model_dirs of
             [] \<Rightarrow> Inr ((None, None), [''Model not found''])
           | d # ds \<Rightarrow>
               (case hps of
                  [] \<Rightarrow> Inl IndexError
                | hp # hs \<Rightarrow>
                    (case load_log fs d of
                       Inl e \<Rightarrow> Inl e
                     | Inr None \<Rightarrow> Inl TypeError
                     | Inr (Some lg) \<Rightarrow>
                         (case getitem lg ''perf_min'' of
                            Inl e \<Rightarrow> Inl e
                          | Inr perf_min \<Rightarrow>
                              (case py_last perf_min of
                                 Inl e \<Rightarrow> Inl e
                               | Inr perf \<Rightarrow>
                                   (case hp of
                                      None \<Rightarrow> Inl TypeError
                                    | Some h \<Rightarrow>
                                        (case getitem h ''target_perf'' of
                                           Inl e \<Rightarrow> Inl e
                                         | Inr target \<Rightarrow>
                                             (case lt perf target of
                                                Inl e \<Rightarrow> Inl e
                                              | Inr b \<Rightarrow>
                                                  Inr ((Some d, hp),
                                                    if b then [''Warning: the network found did not reach target performance.'']
                                                    else []))))))))))"

section \<open>Feed dictionaries\<close>

text \<open>
  A three-dimensional array is its shape and its elements; the elements are read inside the
  shape only. The \<^verbatim>\<open>float32\<close> entries are idealised as reals, so the conversion that an
  assignment into a \<^verbatim>\<open>float32\<close> array makes is the identity.
\<close>

record tensor3 =
  n_time :: nat
  n_batch :: nat
  n_feat :: nat
  elem :: "nat \<Rightarrow> nat \<Rightarrow> nat \<Rightarrow> real"

record ('y, 'c) trial =
  trial_x :: tensor3
  trial_y :: 'y
  trial_c_mask :: 'c

record 'p model =
  model_x :: 'p
  model_y :: 'p
  model_c_mask :: 'p

datatype ('y, 'c) feed = FeedX tensor3 | FeedY 'y | FeedC 'c

definition np_zeros :: "nat \<Rightarrow> nat \<Rightarrow> nat \<Rightarrow> tensor3" where
  "np_zeros t b d = \<lparr>n_time = t, n_batch = b, n_feat = d, elem = (\<lambda>t b j. 0)\<rparr>"

fun as_index :: "pyval \<Rightarrow> error + int" where
  \<comment> \<open>a value used as an integer: in a shape and as a slice bound\<close>
  "as_index (VInt i) = Inr i"
| "as_index (VBool b) = Inr (if b then 1 else 0)"
| "as_index v = Inl TypeError"

definition slice_bound :: "int \<Rightarrow> nat \<Rightarrow> nat" where
  \<comment> \<open>a slice bound \<open>k\<close> on an axis of length \<open>n\<close>: negative bounds count from the end, and
      bounds are clipped to the axis\<close>
  "slice_bound k n = (if k < 0 then nat (max 0 (k + int n)) else min (nat k) n)"

fun argmax_scan :: "real list \<Rightarrow> nat \<Rightarrow> nat \<Rightarrow> real \<Rightarrow> nat" where
  \<comment> \<open>scan from position \<open>pos\<close> with the best index and value so far\<close>
  "argmax_scan [] pos best bv = best"
| "argmax_scan (v # vs) pos best bv =
     (if bv < v then argmax_scan vs (Suc pos) pos v else argmax_scan vs (Suc pos) best bv)"

definition np_argmax :: "real list \<Rightarrow> error + nat" where
  \<comment> \<open>the index of the first maximum; an empty array raises\<close>
  "np_argmax xs = (case xs of [] \<Rightarrow> Inl ValueError | v # vs \<Rightarrow> Inr (argmax_scan vs 1 0 v))"

definition assign_block :: "tensor3 \<Rightarrow> nat \<Rightarrow> nat \<Rightarrow> nat \<Rightarrow> nat \<Rightarrow> tensor3 \<Rightarrow> tensor3" where
  \<comment> \<open>\<^verbatim>\<open>x[:, i, a:a+wt] = src[:, i, :ws]\<close> where \<open>ws = wt\<close>, or \<open>ws = 1\<close> and the one column is
      broadcast\<close>
  "assign_block x i a wt ws src =
     x\<lparr>elem := (\<lambda>t b j. if b = i \<and> a \<le> j \<and> j < a + wt
                         then elem src t i (if ws = wt then j - a else 0)
                         else elem x t b j)\<rparr>"

fun multi_loop :: "tensor3 \<Rightarrow> int \<Rightarrow> nat list \<Rightarrow> tensor3 \<Rightarrow> error + tensor3" where
  \<comment> \<open>the body of \<^verbatim>\<open>for i in range(batch_size)\<close>; \<open>tx\<close> is \<^verbatim>\<open>trial.x\<close>, \<open>rule_start\<close> is
      \<^verbatim>\<open>hparams['rule_start']\<close>\<close>
  "multi_loop tx rule_start [] x = Inr x"
| "multi_loop tx rule_start (i # rest) x =
     (if n_time tx = 0 then Inl IndexError
      else
        (case np_argmax (map (elem tx 0 i) [slice_bound rule_start (n_feat tx)..<n_feat tx]) of
           Inl e \<Rightarrow> Inl e
         | Inr ind_rule \<Rightarrow>
             (let i_start = int ind_rule * rule_start;
                  a = slice_bound i_start (n_feat x);
                  wt = slice_bound (i_start + rule_start) (n_feat x) - a;
                  ws = slice_bound rule_start (n_feat tx)
              in if ws = wt \<or> ws = 1
                 then multi_loop tx rule_start rest (assign_block x i a wt ws tx)
                 else Inl ValueError)))"

definition feed_of :: "'p model \<Rightarrow> tensor3 \<Rightarrow> ('y, 'c) trial \<Rightarrow> ('p \<times> ('y, 'c) feed) list" where
  \<comment> \<open>the dictionary display \<^verbatim>\<open>{model.x: x, model.y: trial.y, model.c_mask: trial.c_mask}\<close>\<close>
  "feed_of m x trial =
     AList.update (model_c_mask m) (FeedC (trial_c_mask trial))
       (AList.update (model_y m) (FeedY (trial_y trial))
          (AList.update (model_x m) (FeedX x) []))"

definition gen_feed_dict ::
  "'p model \<Rightarrow> ('y, 'c) trial \<Rightarrow> pydict \<Rightarrow> error + ('p \<times> ('y, 'c) feed) list" where
  "gen_feed_dict m trial hparams =
     (case getitem hparams ''in_type'' of
        Inl e \<Rightarrow> Inl e
      | Inr in_type \<Rightarrow>
          if py_eq in_type (VStr ''normal'') then Inr (feed_of m (trial_x trial) trial)
          else if py_eq in_type (VStr ''multi'') then
            (let n_time = n_time (trial_x trial); batch_size = n_batch (trial_x trial)
             in case getitem hparams ''rule_start'' of
                  Inl e \<Rightarrow> Inl e
                | Inr rs \<Rightarrow>
                    (case getitem hparams ''n_rule'' of
                       Inl e \<Rightarrow> Inl e
                     | Inr nr \<Rightarrow>
                         (case as_index rs of
                            Inl e \<Rightarrow> Inl e
                          | Inr rule_start \<Rightarrow>
                              (case as_index nr of
                                 Inl e \<Rightarrow> Inl e
                               | Inr n_rule \<Rightarrow>
                                   if rule_start * n_rule < 0 then Inl ValueError
                                   else
                                     (case multi_loop (trial_x trial) rule_start [0..<batch_size]
                                             (np_zeros n_time batch_size (nat (rule_start * n_rule))) of
                                        Inl e \<Rightarrow> Inl e
                                      | Inr x \<Rightarrow> Inr (feed_of m x trial))))))
          else Inl UnboundLocalError)"

section \<open>Random orthogonal matrices\<close>

text \<open>
  The arithmetic of \<open>gen_ortho_matrix\<close> is idealised: the entries are real numbers and
  \<^verbatim>\<open>np.sqrt\<close> is the real square root. The pseudo-random number algorithm is no part of the
  module, so it is the parameter \<open>G\<close>: \<open>G s i\<close> is the \<open>i\<close>-th standard normal variate of a
  generator seeded with \<open>s\<close>. A call to \<^verbatim>\<open>normal(size=(k,))\<close> takes the next \<open>k\<close> variates.
\<close>

type_synonym sampler = "int \<Rightarrow> nat \<Rightarrow> real"

type_synonym matrix = "real list list"

definition normal :: "sampler \<Rightarrow> nat \<Rightarrow> rng \<Rightarrow> real list \<times> rng" where
  "normal G k r =
     (map (\<lambda>i. G (seed_of r) (drawn r + i)) [0..<k], RandomState (seed_of r) (drawn r + k))"

text \<open>
  The source of randomness is the pair of the argument \<^verbatim>\<open>rng\<close> (or \<^verbatim>\<open>None\<close>) and the
  generator behind \<^verbatim>\<open>np.random\<close>, which is used when the argument is \<^verbatim>\<open>None\<close>.
\<close>

definition draw_normal :: "sampler \<Rightarrow> nat \<Rightarrow> rng option \<times> rng \<Rightarrow> real list \<times> rng option \<times> rng" where
  "draw_normal G k st =
     (case fst st of
        None \<Rightarrow> (let (x, g) = normal G k (snd st) in (x, (None, g)))
      | Some r \<Rightarrow> (let (x, r') = normal G k r in (x, (Some r', snd st))))"

definition eye :: "nat \<Rightarrow> matrix" where
  "eye n = map (\<lambda>i. map (\<lambda>j. if i = j then 1 else 0) [0..<n]) [0..<n]"

definition outer :: "real list \<Rightarrow> real list \<Rightarrow> matrix" where
  "outer u v = map (\<lambda>a. map (\<lambda>b. a * b) v) u"

definition sum_sq :: "real list \<Rightarrow> real" where
  \<comment> \<open>\<^verbatim>\<open>(x*x).sum()\<close>\<close>
  "sum_sq u = sum_list (map (\<lambda>a. a * a) u)"

definition mat_scale :: "real \<Rightarrow> matrix \<Rightarrow> matrix" where
  "mat_scale c A = map (map (\<lambda>a. c * a)) A"

definition mat_div :: "matrix \<Rightarrow> real \<Rightarrow> matrix" where
  "mat_div A s = map (map (\<lambda>a. a / s)) A"

definition mat_sub :: "matrix \<Rightarrow> matrix \<Rightarrow> matrix" where
  "mat_sub A B = map2 (map2 (\<lambda>a b. a - b)) A B"

definition n_cols :: "matrix \<Rightarrow> nat" where
  "n_cols A = (case A of [] \<Rightarrow> 0 | r # rs \<Rightarrow> length r)"

definition np_dot :: "matrix \<Rightarrow> matrix \<Rightarrow> matrix" where
  \<comment> \<open>the matrix product of two-dimensional arrays of matching shapes\<close>
  "np_dot A B =
     map (\<lambda>row. map (\<lambda>j. sum_list (map (\<lambda>k. row ! k * B ! k ! j) [0..<length B]))
                   [0..<n_cols B]) A"

definition set_block :: "nat \<Rightarrow> matrix \<Rightarrow> matrix \<Rightarrow> matrix" where
  \<comment> \<open>\<^verbatim>\<open>M[k:, k:] = B\<close> for a block \<open>B\<close> of the shape of the slice\<close>
  "set_block k B M =
     map (\<lambda>i. map (\<lambda>j. if k \<le> i \<and> k \<le> j then B ! (i - k) ! (j - k) else M ! i ! j)
                 [0..<length (M ! i)]) [0..<length M]"

definition householder :: "real list \<Rightarrow> matrix" where
  \<comment> \<open>lines 171 to 174: the sign, the update of \<^verbatim>\<open>x[0]\<close> in place, and \<^verbatim>\<open>Hx\<close>\<close>
  "householder x0 =
     (let D = sgn (x0 ! 0);
          x = x0[0 := x0 ! 0 + D * sqrt (sum_sq x0)]
      in mat_scale (- D)
           (mat_sub (eye (length x)) (mat_div (mat_scale 2 (outer x x)) (sum_sq x))))"

fun ortho_loop ::
  "sampler \<Rightarrow> nat \<Rightarrow> nat list \<Rightarrow> matrix \<times> rng option \<times> rng \<Rightarrow> matrix \<times> rng option \<times> rng" where
  \<comment> \<open>the body of \<^verbatim>\<open>for n in range(1, dim)\<close>\<close>
  "ortho_loop G dm [] (H, st) = (H, st)"
| "ortho_loop G dm (n # ns) (H, st) =
     (let (x, st') = draw_normal G (dm - n + 1) st;
          Hx = householder x;
          mat = set_block (n - 1) Hx (eye dm)
      in ortho_loop G dm ns (np_dot H mat, st'))"

definition gen_ortho_matrix ::
  "sampler \<Rightarrow> int \<Rightarrow> rng option \<Rightarrow> rng \<Rightarrow> error + matrix \<times> rng option \<times> rng" where
  \<comment> \<open>the last argument is the state of the generator behind \<^verbatim>\<open>np.random\<close>;
      \<^verbatim>\<open>np.eye\<close> rejects a negative dimension\<close>
  "gen_ortho_matrix G dm rng glob =
     (if dm < 0 then Inl ValueError
      else Inr (ortho_loop G (nat dm) [1..<nat dm] (eye (nat dm), (rng, glob))))"

section \<open>Notions used in the statements\<close>

text \<open>
  A value that has a last element; the agreement of a loaded dictionary with a target on
  every key of the target; the dictionary \<open>load_hparams\<close> returns for a directory; and the
  numeric order as one instance of the comparison \<open>find_model\<close> takes.
\<close>

fun nonempty_seq :: "pyval \<Rightarrow> bool" where
  "nonempty_seq (VList xs) = (xs \<noteq> [])"
| "nonempty_seq (VStr s) = (s \<noteq> [])"
| "nonempty_seq v = False"

definition agrees_on :: "pydict \<Rightarrow> pydict \<Rightarrow> bool" where
  "agrees_on hp hp_target =
     list_all (\<lambda>(key, v). case map_of hp key of None \<Rightarrow> False | Some u \<Rightarrow> py_eq u v) hp_target"

definition loaded_hparams :: "fsnode \<Rightarrow> path \<Rightarrow> pydict" where
  "loaded_hparams fs d = (case load_hparams fs d of Inr (Some hp) \<Rightarrow> hp | _ \<Rightarrow> [])"

definition py_lt :: "pyval \<Rightarrow> pyval \<Rightarrow> error + bool" where
  "py_lt a b = (case (num_val a, num_val b) of (Some x, Some y) \<Rightarrow> Inr (x < y) | _ \<Rightarrow> Inl TypeError)"



definition is_square :: "nat \<Rightarrow> matrix \<Rightarrow> bool" where
  "is_square n A = (length A = n \<and> (\<forall>row \<in> set A. length row = n))"


text \<open>
  \<open>upcoming G st i\<close> is the \<open>i\<close>-th variate that the source of randomness \<open>st\<close> will yield
  next. The draw of step \<open>n\<close> of \<open>gen_ortho_matrix\<close> at dimension \<open>dm\<close> starts at the variate
  \<open>draw_start dm n\<close>, and the whole run takes \<open>n_draws dm\<close> variates.
\<close>

definition upcoming :: "sampler \<Rightarrow> rng option \<times> rng \<Rightarrow> nat \<Rightarrow> real" where
  "upcoming G st i =
     (case fst st of
        None \<Rightarrow> G (seed_of (snd st)) (drawn (snd st) + i)
      | Some r \<Rightarrow> G (seed_of r) (drawn r + i))"

definition draw_start :: "nat \<Rightarrow> nat \<Rightarrow> nat" where
  "draw_start dm n = sum_list (map (\<lambda>m. dm - m + 1) [1..<n])"

definition n_draws :: "nat \<Rightarrow> nat" where
  "n_draws dm = draw_start dm dm"

text \<open>
  A directory tree with two model directories and one directory without a checkpoint, and
  a store with one hyper-parameter dictionary, used as concrete inputs.
\<close>

definition example_fs :: fsnode where
  "example_fs =
     Dir [(''models'',
       Dir [(''a'', Dir [(''model.ckpt-100.index'', File OtherData),
                         (''hparams.json'', File (JsonText
                            [(''seed'', VInt 0), (''act'', VStr ''relu''), (''target_perf'', VFloat 0.9)]))]),
            (''b'', Dir [(''model.ckpt'', File OtherData),
                         (''hparams.json'', File (JsonText
                            [(''seed'', VInt 1), (''act'', VStr ''tanh''), (''target_perf'', VFloat 0.9)])),
                         (''log.pkl'', File (PickleData [(''perf_min'', VList [VFloat 0.5, VFloat 0.95])]))]),
            (''c'', Dir [(''notes.txt'', File OtherData)])])]"




text \<open>
  Two samplers: one whose variates are positive for a positive seed, and one whose first
  variate is zero.
\<close>

definition example_sampler :: sampler where
  "example_sampler s i = of_int s + of_nat i"


section \<open>Missing files\<close>

text \<open>
  C7. If the directory has no \<^verbatim>\<open>log.pkl\<close>, \<open>load_log\<close> returns \<^verbatim>\<open>None\<close> and raises
  nothing; if it has no \<^verbatim>\<open>hparams.json\<close>, \<open>load_hparams\<close> returns \<^verbatim>\<open>None\<close> and
  raises nothing.
\<close>

theorem load_missing_file_None:
  "(fs_lookup fs (path_join train_dir ''log.pkl'') = None \<longrightarrow> load_log fs train_dir = Inr None) \<and>
   (fs_lookup fs (path_join save_dir ''hparams.json'') = None \<longrightarrow>
      load_hparams fs save_dir = Inr None)"
  by (simp add: load_log_def load_hparams_def isfile_def)

theorem load_missing_file_None_witness:
  "fs_lookup (Dir [(''m'', Dir [])]) (path_join [''m''] ''log.pkl'') = None \<and>
   load_log (Dir [(''m'', Dir [])]) [''m''] = Inr None \<and>
   fs_lookup (Dir [(''m'', Dir [])]) (path_join [''m''] ''hparams.json'') = None \<and>
   load_hparams (Dir [(''m'', Dir [])]) [''m''] = Inr None"
  using load_missing_file_None [of "Dir [(''m'', Dir [])]" "[''m'']" "[''m'']"]
  by (simp add: path_join_def)

section \<open>The dimension-one matrix\<close>

text \<open>
  C5. \<open>gen_ortho_matrix\<close> at dimension 1 runs no iteration of its loop: it returns the
  one-by-one identity matrix \<open>[[1]]\<close>, and both generators are as they were.
\<close>

theorem gen_ortho_matrix_dim_one:
  "gen_ortho_matrix G 1 rng glob = Inr ([[1]], (rng, glob))"
  by (simp add: gen_ortho_matrix_def eye_def)

section \<open>Unknown input types\<close>

lemma py_eq_VStr: "py_eq t (VStr s) = (t = VStr s)"
  by (cases t) auto

text \<open>
  C9. When the field \<^verbatim>\<open>in_type\<close> of the hyper-parameters is neither \<^verbatim>\<open>'normal'\<close> nor
  \<^verbatim>\<open>'multi'\<close>, \<open>gen_feed_dict\<close> raises \<^verbatim>\<open>UnboundLocalError\<close>; and whenever it returns a
  feed dictionary, the field is one of the two.
\<close>

theorem gen_feed_dict_other_in_type:
  "(map_of hparams ''in_type'' = Some t \<and> t \<noteq> VStr ''normal'' \<and> t \<noteq> VStr ''multi'' \<longrightarrow>
      gen_feed_dict m trial hparams = Inl UnboundLocalError) \<and>
   (gen_feed_dict m trial hparams = Inr fd \<longrightarrow>
      map_of hparams ''in_type'' = Some (VStr ''normal'') \<or>
      map_of hparams ''in_type'' = Some (VStr ''multi''))"
  by (auto simp: gen_feed_dict_def getitem_def py_eq_VStr split: option.splits if_splits)

theorem gen_feed_dict_other_in_type_witness:
  "(map_of [(''in_type'', VStr ''other'')] ''in_type'' = Some (VStr ''other'') \<and>
    VStr ''other'' \<noteq> VStr ''normal'' \<and> VStr ''other'' \<noteq> VStr ''multi'' \<and>
    gen_feed_dict \<lparr>model_x = 0::nat, model_y = 1, model_c_mask = 2\<rparr>
      \<lparr>trial_x = np_zeros 1 1 1, trial_y = True, trial_c_mask = False\<rparr>
      [(''in_type'', VStr ''other'')] = Inl UnboundLocalError) \<and>
   (gen_feed_dict \<lparr>model_x = 0::nat, model_y = 1, model_c_mask = 2\<rparr>
      \<lparr>trial_x = np_zeros 1 1 1, trial_y = True, trial_c_mask = False\<rparr>
      [(''in_type'', VStr ''normal'')]
      = Inr [(0, FeedX (np_zeros 1 1 1)), (1, FeedY True), (2, FeedC False)] \<and>
    map_of [(''in_type'', VStr ''normal'')] ''in_type'' = Some (VStr ''normal''))"
  using
    gen_feed_dict_other_in_type [of "[(''in_type'', VStr ''other'')]" "VStr ''other''"
      "\<lparr>model_x = 0::nat, model_y = 1, model_c_mask = 2\<rparr>"
      "\<lparr>trial_x = np_zeros 1 1 1, trial_y = True, trial_c_mask = False\<rparr>"]
    gen_feed_dict_other_in_type [of "[(''in_type'', VStr ''normal'')]" "VNone"
      "\<lparr>model_x = 0::nat, model_y = 1, model_c_mask = 2\<rparr>"
      "\<lparr>trial_x = np_zeros 1 1 1, trial_y = True, trial_c_mask = False\<rparr>"
      "[(0, FeedX (np_zeros 1 1 1)), (1, FeedY True), (2, FeedC False)]"]
  by (simp add: gen_feed_dict_def getitem_def feed_of_def)

section \<open>Saving leaves the argument alone\<close>

text \<open>
  C10. \<open>save_hparams\<close> does not change the dictionary it is given: when the caller's
  dictionary has a field \<^verbatim>\<open>rng\<close>, after the call (whether it returns or raises) the
  dictionary at the caller's address is the same and still has the field.
\<close>

theorem save_hparams_keeps_argument:
  "hparams < length (heap w) \<Longrightarrow> map_of (heap w ! hparams) ''rng'' = Some r \<Longrightarrow>
   heap (snd (save_hparams hparams save_dir w)) ! hparams = heap w ! hparams \<and>
   map_of (heap (snd (save_hparams hparams save_dir w)) ! hparams) ''rng'' = Some r"
  by (auto simp: save_hparams_def Let_def nth_append split: option.splits sum.splits)

theorem save_hparams_keeps_argument_witness:
  "0 < length (heap \<lparr>heap = [[(''rng'', VRng (RandomState 5 17)), (''seed'', VInt 5)]],
                      files = Dir [(''m'', Dir [])]\<rparr>) \<and>
   map_of (heap \<lparr>heap = [[(''rng'', VRng (RandomState 5 17)), (''seed'', VInt 5)]],
                 files = Dir [(''m'', Dir [])]\<rparr> ! 0) ''rng'' = Some (VRng (RandomState 5 17)) \<and>
   heap (snd (save_hparams 0 [''m'']
                \<lparr>heap = [[(''rng'', VRng (RandomState 5 17)), (''seed'', VInt 5)]],
                 files = Dir [(''m'', Dir [])]\<rparr>)) ! 0
     = [(''rng'', VRng (RandomState 5 17)), (''seed'', VInt 5)] \<and>
   map_of (heap (snd (save_hparams 0 [''m'']
                \<lparr>heap = [[(''rng'', VRng (RandomState 5 17)), (''seed'', VInt 5)]],
                 files = Dir [(''m'', Dir [])]\<rparr>)) ! 0) ''rng'' = Some (VRng (RandomState 5 17))"
  using save_hparams_keeps_argument [of 0
      "\<lparr>heap = [[(''rng'', VRng (RandomState 5 17)), (''seed'', VInt 5)]],
        files = Dir [(''m'', Dir [])]\<rparr>" "VRng (RandomState 5 17)" "[''m'']"]
  by simp

section \<open>Concrete inputs\<close>

lemma ex_valid: "valid_model_dirs example_fs [''models''] = Inr [[''models'', ''a''], [''models'', ''b'']]"
  by (simp add: valid_model_dirs_def os_walk_def example_fs_def path_join_def contain_model_file_def listdir_def)

lemma ex_load_a: "load_hparams example_fs [''models'', ''a''] =
   Inr (Some [(''seed'', VInt 0), (''act'', VStr ''relu''), (''target_perf'', VFloat 0.9), (''rng'', VRng (RandomState 1000 0))])"
  by (simp add: load_hparams_def example_fs_def path_join_def isfile_def getitem_def)

lemma ex_load_b: "load_hparams example_fs [''models'', ''b''] =
   Inr (Some [(''seed'', VInt 1), (''act'', VStr ''tanh''), (''target_perf'', VFloat 0.9), (''rng'', VRng (RandomState 1001 0))])"
  by (simp add: load_hparams_def example_fs_def path_join_def isfile_def getitem_def)


section \<open>The log of the model found\<close>

lemma find_all_models_loop_lengths:
  "find_all_models_loop fs t dirs (a, b) = Inr (ds, hps) \<Longrightarrow> length a = length b \<Longrightarrow>
   length ds = length hps"
  by (induction dirs arbitrary: a b) (auto split: sum.splits if_splits)

lemma find_all_models_lengths:
  "find_all_models fs root_dir t = Inr (ds, hps) \<Longrightarrow> length ds = length hps"
  by (auto simp: find_all_models_def split: sum.splits dest: find_all_models_loop_lengths)

lemma py_last_nonempty: "py_last v = Inr p \<Longrightarrow> nonempty_seq v"
  by (cases v) (auto split: if_splits)

text \<open>
  C8. When \<open>find_model\<close> finds a matching directory and the first one has no file
  \<^verbatim>\<open>log.pkl\<close>, it raises \<^verbatim>\<open>TypeError\<close> (\<open>load_log\<close> returned \<^verbatim>\<open>None\<close>, which is
  subscripted). When it returns a directory, that directory is the first match, its log
  loads, and the log has a non-empty sequence under \<^verbatim>\<open>perf_min\<close>.
\<close>

theorem find_model_needs_log:
  "(find_all_models fs root_dir hp_target = Inr (d # ds, hps) \<and>
    \<not> isfile fs (path_join d ''log.pkl'') \<longrightarrow>
      find_model lt fs root_dir hp_target = Inl TypeError) \<and>
   (find_model lt fs root_dir hp_target = Inr ((Some d', hp), out) \<longrightarrow>
      (\<exists>ds' hps' lg perf_min.
          find_all_models fs root_dir hp_target = Inr (d' # ds', hps') \<and>
          load_log fs d' = Inr (Some lg) \<and>
          map_of lg ''perf_min'' = Some perf_min \<and> nonempty_seq perf_min))"
proof (intro conjI impI)
  assume a: "find_all_models fs root_dir hp_target = Inr (d # ds, hps) \<and>
    \<not> isfile fs (path_join d ''log.pkl'')"
  then have "length (d # ds) = length hps"
    using find_all_models_lengths by blast
  then obtain h hs where "hps = h # hs" by (cases hps) auto
  with a show "find_model lt fs root_dir hp_target = Inl TypeError"
    by (simp add: find_model_def load_log_def)
next
  assume "find_model lt fs root_dir hp_target = Inr ((Some d', hp), out)"
  then show "\<exists>ds' hps' lg perf_min.
          find_all_models fs root_dir hp_target = Inr (d' # ds', hps') \<and>
          load_log fs d' = Inr (Some lg) \<and>
          map_of lg ''perf_min'' = Some perf_min \<and> nonempty_seq perf_min"
    by (auto simp: find_model_def getitem_def
        split: sum.splits list.splits option.splits if_splits dest: py_last_nonempty)
qed


theorem find_model_needs_log_witness:
  "(find_all_models example_fs [''models''] [(''act'', VStr ''relu'')] =
      Inr ([''models'', ''a''] # [],
           [Some [(''seed'', VInt 0), (''act'', VStr ''relu''), (''target_perf'', VFloat 0.9),
                  (''rng'', VRng (RandomState 1000 0))]]) \<and>
    \<not> isfile example_fs (path_join [''models'', ''a''] ''log.pkl'') \<and>
    find_model py_lt example_fs [''models''] [(''act'', VStr ''relu'')] = Inl TypeError) \<and>
   (find_model py_lt example_fs [''models''] [(''act'', VStr ''tanh'')] =
      Inr ((Some [''models'', ''b''],
            Some [(''seed'', VInt 1), (''act'', VStr ''tanh''), (''target_perf'', VFloat 0.9),
                  (''rng'', VRng (RandomState 1001 0))]), []) \<and>
    load_log example_fs [''models'', ''b''] = Inr (Some [(''perf_min'', VList [VFloat 0.5, VFloat 0.95])]))"
proof -
  have fa: "find_all_models example_fs [''models''] [(''act'', VStr ''relu'')] =
      Inr ([''models'', ''a''] # [],
           [Some [(''seed'', VInt 0), (''act'', VStr ''relu''), (''target_perf'', VFloat 0.9),
                  (''rng'', VRng (RandomState 1000 0))]])"
    by (simp add: find_all_models_def ex_valid ex_load_a ex_load_b getitem_def)
  have nf: "\<not> isfile example_fs (path_join [''models'', ''a''] ''log.pkl'')"
    by (simp add: isfile_def example_fs_def path_join_def)
  have fb: "find_all_models example_fs [''models''] [(''act'', VStr ''tanh'')] =
      Inr ([[''models'', ''b'']],
           [Some [(''seed'', VInt 1), (''act'', VStr ''tanh''), (''target_perf'', VFloat 0.9),
                  (''rng'', VRng (RandomState 1001 0))]])"
    by (simp add: find_all_models_def ex_valid ex_load_a ex_load_b getitem_def)
  have lb: "load_log example_fs [''models'', ''b''] = Inr (Some [(''perf_min'', VList [VFloat 0.5, VFloat 0.95])])"
    by (simp add: load_log_def isfile_def example_fs_def path_join_def)
  have fm: "find_model py_lt example_fs [''models''] [(''act'', VStr ''tanh'')] =
      Inr ((Some [''models'', ''b''],
            Some [(''seed'', VInt 1), (''act'', VStr ''tanh''), (''target_perf'', VFloat 0.9),
                  (''rng'', VRng (RandomState 1001 0))]), [])"
    by (simp add: find_model_def fb lb getitem_def py_lt_def)
  show ?thesis
    using fa nf fm lb
      find_model_needs_log [of example_fs "[''models'']" "[(''act'', VStr ''relu'')]"
        "[''models'', ''a'']" "[]" _ py_lt]
      find_model_needs_log [of example_fs "[''models'']" "[(''act'', VStr ''tanh'')]"
        _ _ _ py_lt "[''models'', ''b'']" _ "[]"]
    by simp
qed


section \<open>Which directories are found\<close>

lemma hp_matches_agrees:
  "\<forall>(key, v) \<in> set hp_target. map_of hp key \<noteq> None \<Longrightarrow>
   hp_matches (Some hp) hp_target = Inr (agrees_on hp hp_target)"
  by (induction hp_target) (auto simp: agrees_on_def getitem_def split: option.splits)

lemma find_all_models_loop_filter:
  "\<forall>d \<in> set dirs. \<exists>hp. load_hparams fs d = Inr (Some hp) \<and>
       (\<forall>(key, v) \<in> set hp_target. map_of hp key \<noteq> None) \<Longrightarrow>
   find_all_models_loop fs hp_target dirs (acc_d, acc_h) =
     Inr (acc_d @ filter (\<lambda>d. agrees_on (loaded_hparams fs d) hp_target) dirs,
          acc_h @ map (\<lambda>d. Some (loaded_hparams fs d))
                    (filter (\<lambda>d. agrees_on (loaded_hparams fs d) hp_target) dirs))"
proof (induction dirs arbitrary: acc_d acc_h)
  case Nil
  then show ?case by simp
next
  case (Cons d dirs)
  from Cons.prems obtain hp where hp: "load_hparams fs d = Inr (Some hp)"
    "\<forall>(key, v) \<in> set hp_target. map_of hp key \<noteq> None" by auto
  have rest: "\<forall>d \<in> set dirs. \<exists>hp. load_hparams fs d = Inr (Some hp) \<and>
       (\<forall>(key, v) \<in> set hp_target. map_of hp key \<noteq> None)"
    using Cons.prems by simp
  have l: "loaded_hparams fs d = hp" using hp(1) by (simp add: loaded_hparams_def)
  show ?case
    using hp_matches_agrees [OF hp(2)] hp(1) l Cons.IH [OF rest]
    by simp
qed

text \<open>
  C2, amended. When every discovered model directory has hyper-parameters that load and
  hold every key of the target, \<open>find_all_models\<close> returns, in the order of discovery,
  exactly the discovered directories whose loaded hyper-parameters agree with the target
  on every key of the target, with those hyper-parameters. The stored mapping may hold
  further keys.
\<close>

theorem find_all_models_agree:
  assumes "valid_model_dirs fs root_dir = Inr dirs"
    and "\<forall>d \<in> set dirs. \<exists>hp. load_hparams fs d = Inr (Some hp) \<and>
           (\<forall>(key, v) \<in> set hp_target. map_of hp key \<noteq> None)"
  shows "find_all_models fs root_dir hp_target =
     Inr (filter (\<lambda>d. agrees_on (loaded_hparams fs d) hp_target) dirs,
          map (\<lambda>d. Some (loaded_hparams fs d))
            (filter (\<lambda>d. agrees_on (loaded_hparams fs d) hp_target) dirs))"
  using assms(1) find_all_models_loop_filter [OF assms(2), of "[]" "[]"]
  by (simp add: find_all_models_def)

theorem find_all_models_agree_witness:
  "valid_model_dirs example_fs [''models''] = Inr [[''models'', ''a''], [''models'', ''b'']] \<and>
   find_all_models example_fs [''models''] [(''act'', VStr ''tanh'')] =
     Inr ([[''models'', ''b'']],
          [Some [(''seed'', VInt 1), (''act'', VStr ''tanh''), (''target_perf'', VFloat 0.9),
                 (''rng'', VRng (RandomState 1001 0))]])"
  using find_all_models_agree [of example_fs "[''models'']" "[[''models'', ''a''], [''models'', ''b'']]"
      "[(''act'', VStr ''tanh'')]"]
  by (simp add: ex_valid ex_load_a ex_load_b loaded_hparams_def agrees_on_def)


text \<open>
  The claim as stated fails: the directory \<^verbatim>\<open>models/b\<close> is returned for the target
  \<^verbatim>\<open>{'act': 'tanh'}\<close> although its stored mapping also has the key \<^verbatim>\<open>seed\<close>, which the
  target has not.
\<close>

theorem find_all_models_exact_counterexample:
  "find_all_models example_fs [''models''] [(''act'', VStr ''tanh'')] =
     Inr ([[''models'', ''b'']],
          [Some [(''seed'', VInt 1), (''act'', VStr ''tanh''), (''target_perf'', VFloat 0.9),
                 (''rng'', VRng (RandomState 1001 0))]]) \<and>
   fs_lookup example_fs (path_join [''models'', ''b''] ''hparams.json'') =
     Some (File (JsonText [(''seed'', VInt 1), (''act'', VStr ''tanh''), (''target_perf'', VFloat 0.9)])) \<and>
   map_of [(''seed'', VInt 1), (''act'', VStr ''tanh''), (''target_perf'', VFloat 0.9)] ''seed''
     \<noteq> map_of [(''act'', VStr ''tanh'')] ''seed''"
  by (simp add: find_all_models_def ex_valid ex_load_a ex_load_b getitem_def)
     (simp add: example_fs_def path_join_def)


section \<open>Saving and loading hyper-parameters\<close>






section \<open>The multi-rule input\<close>

lemma argmax_scan_bound:
  "best < pos \<Longrightarrow> argmax_scan vs pos best bv < pos + length vs"
proof (induction vs arbitrary: pos best bv)
  case Nil
  then show ?case by simp
next
  case (Cons v vs)
  have "argmax_scan vs (Suc pos) pos v < Suc pos + length vs"
    using Cons.IH [of pos "Suc pos" v] by simp
  moreover have "argmax_scan vs (Suc pos) best bv < Suc pos + length vs"
    using Cons.IH [of best "Suc pos" bv] Cons.prems by simp
  ultimately show ?case by simp
qed

lemma np_argmax_bound: "np_argmax xs = Inr k \<Longrightarrow> k < length xs"
  using argmax_scan_bound [of 0 1]
  by (auto simp: np_argmax_def split: list.splits)


lemma argmax_scan_max:
  assumes "best < length ps" and "ps ! best = bv"
    and "\<forall>j < length ps. ps ! j \<le> bv" and "\<forall>j < best. ps ! j < bv"
  shows "(\<forall>j < length (ps @ vs). (ps @ vs) ! j \<le> (ps @ vs) ! argmax_scan vs (length ps) best bv) \<and>
         (\<forall>j < argmax_scan vs (length ps) best bv.
             (ps @ vs) ! j < (ps @ vs) ! argmax_scan vs (length ps) best bv)"
  using assms
proof (induction vs arbitrary: ps best bv)
  case Nil
  then show ?case by simp
next
  case (Cons v vs)
  show ?case
  proof (cases "bv < v")
    case True
    have a: "length ps < length (ps @ [v])" "(ps @ [v]) ! length ps = v" by simp_all
    have b: "\<forall>j < length (ps @ [v]). (ps @ [v]) ! j \<le> v"
      using Cons.prems(3) True by (auto simp: nth_append less_Suc_eq)
    have c: "\<forall>j < length ps. (ps @ [v]) ! j < v"
      using Cons.prems(3) True by (auto simp: nth_append)
    from Cons.IH [OF a b c] True show ?thesis by simp
  next
    case False
    have a: "best < length (ps @ [v])" "(ps @ [v]) ! best = bv"
      using Cons.prems(1,2) by (simp_all add: nth_append)
    have b: "\<forall>j < length (ps @ [v]). (ps @ [v]) ! j \<le> bv"
      using Cons.prems(3) False by (auto simp: nth_append less_Suc_eq)
    have c: "\<forall>j < best. (ps @ [v]) ! j < bv"
      using Cons.prems(1,4) by (auto simp: nth_append)
    from Cons.IH [OF a b c] False show ?thesis by simp
  qed
qed

lemma np_argmax_is_first_max:
  assumes "np_argmax xs = Inr k"
  shows "k < length xs \<and> (\<forall>j < length xs. xs ! j \<le> xs ! k) \<and> (\<forall>j < k. xs ! j < xs ! k)"
proof -
  from assms obtain v vs where xs: "xs = v # vs" "k = argmax_scan vs 1 0 v"
    by (auto simp: np_argmax_def split: list.splits)
  have "(\<forall>j < length ([v] @ vs). ([v] @ vs) ! j \<le> ([v] @ vs) ! argmax_scan vs (length [v]) 0 v) \<and>
         (\<forall>j < argmax_scan vs (length [v]) 0 v.
             ([v] @ vs) ! j < ([v] @ vs) ! argmax_scan vs (length [v]) 0 v)"
    by (rule argmax_scan_max) simp_all
  then show ?thesis using xs np_argmax_bound [OF assms] by simp
qed










section \<open>Orthogonality of the generated matrix\<close>

lemma is_square_row: "is_square n A \<Longrightarrow> i < n \<Longrightarrow> length (A ! i) = n"
  by (simp add: is_square_def)





















lemma draw_normal_upcoming:
  "draw_normal G k st = (x, st') \<Longrightarrow>
   x = map (upcoming G st) [0..<k] \<and> (\<forall>i. upcoming G st' i = upcoming G st (k + i))"
  by (cases st; cases "fst st")
     (auto simp: draw_normal_def normal_def upcoming_def add.assoc split: prod.splits)






section \<open>Determinism of the generated matrix\<close>

lemma ortho_loop_draws:
  assumes "\<forall>i < sum_list (map (\<lambda>m. dm - m + 1) ns). upcoming G st i = upcoming G' st' i"
  shows "fst (ortho_loop G dm ns (H, st)) = fst (ortho_loop G' dm ns (H, st'))"
  using assms
proof (induction ns arbitrary: H st st')
  case Nil
  then show ?case by simp
next
  case (Cons n ns)
  obtain x st1 where d: "draw_normal G (dm - n + 1) st = (x, st1)"
    by (cases "draw_normal G (dm - n + 1) st") auto
  obtain x' st1' where d': "draw_normal G' (dm - n + 1) st' = (x', st1')"
    by (cases "draw_normal G' (dm - n + 1) st'") auto
  from draw_normal_upcoming [OF d] have
    x: "x = map (upcoming G st) [0..<dm - n + 1]"
    and up: "\<And>i. upcoming G st1 i = upcoming G st (dm - n + 1 + i)"
    by auto
  from draw_normal_upcoming [OF d'] have
    x': "x' = map (upcoming G' st') [0..<dm - n + 1]"
    and up': "\<And>i. upcoming G' st1' i = upcoming G' st' (dm - n + 1 + i)"
    by auto
  have "x = x'"
    unfolding x x'
  proof (intro map_cong refl)
    fix i assume "i \<in> set [0..<dm - n + 1]"
    then have "i < sum_list (map (\<lambda>m. dm - m + 1) (n # ns))" by auto
    with Cons.prems show "upcoming G st i = upcoming G' st' i" by blast
  qed
  moreover have "\<forall>i < sum_list (map (\<lambda>m. dm - m + 1) ns). upcoming G st1 i = upcoming G' st1' i"
    using Cons.prems by (simp add: up up')
  ultimately show ?case
    using Cons.IH [of st1 st1'] d d' by simp
qed


text \<open>
  C6. The matrix that \<open>gen_ortho_matrix\<close> returns is a function of the dimension and of
  the variates drawn: two invocations whose generators yield the same variates, as two
  generators in the same seeded state do, return the same matrix.
\<close>

theorem gen_ortho_matrix_deterministic:
  assumes "map (upcoming G (rng, glob)) [0..<n_draws (nat dm)] =
           map (upcoming G' (rng', glob')) [0..<n_draws (nat dm)]"
  shows "map_sum id fst (gen_ortho_matrix G dm rng glob) =
         map_sum id fst (gen_ortho_matrix G' dm rng' glob')"
proof -
  have "\<forall>i < sum_list (map (\<lambda>m. nat dm - m + 1) [1..<nat dm]).
          upcoming G (rng, glob) i = upcoming G' (rng', glob') i"
    using assms by (simp add: n_draws_def draw_start_def)
  then have "fst (ortho_loop G (nat dm) [1..<nat dm] (eye (nat dm), (rng, glob))) =
             fst (ortho_loop G' (nat dm) [1..<nat dm] (eye (nat dm), (rng', glob')))"
    by (rule ortho_loop_draws)
  then show ?thesis by (simp add: gen_ortho_matrix_def)
qed

theorem gen_ortho_matrix_deterministic_witness:
  "map (upcoming example_sampler (Some (RandomState 2 0), RandomState 7 0)) [0..<n_draws (nat 2)] =
   map (upcoming example_sampler (None, RandomState 0 2)) [0..<n_draws (nat 2)] \<and>
   map_sum id fst (gen_ortho_matrix example_sampler 2 (Some (RandomState 2 0)) (RandomState 7 0)) =
   map_sum id fst (gen_ortho_matrix example_sampler 2 None (RandomState 0 2))"
proof -
  have h: "map (upcoming example_sampler (Some (RandomState 2 0), RandomState 7 0))
             [0..<n_draws (nat 2)] =
           map (upcoming example_sampler (None, RandomState 0 2)) [0..<n_draws (nat 2)]"
    by (simp add: upcoming_def example_sampler_def)
  show ?thesis
    using h gen_ortho_matrix_deterministic [OF h] by simp
qed

end
